theory Spec2Isabelle
  imports Main
begin

section \<open>The instrument connection of src/instrument/connection/connection.ts\<close>

text \<open>
  The class \<open>Connection\<close> is a single-writer state machine: every method runs to its end
  before the next one starts. It is embedded as a record of its fields, each method as a
  function from the record to the updated record. Everything a method does to the world
  outside the object (the activity log, the console, the callback window, the instrument
  entity, the transport) is appended to the field \<open>trace\<close>, in the order the source does it.
  The JavaScript timers are kept in the record as well: the list of pending timers with the
  handle, the callback and the delay of each.

  Left out: the publication of the status to other processes (the notify source and the
  autorun of the constructor), the class \<open>IpcConnection\<close> and the IPC handlers, which only
  forward calls to the methods embedded here.
\<close>

subsection \<open>Data\<close>

datatype ConnectionState = IDLE | CONNECTING | CONNECTED | DISCONNECTING

text \<open>
  Modelled from the spec: the enumeration \<open>ConnectionErrorCode\<close> is declared in
  instrument/connection/interface, which is not among the sources. The spec lists
  \<open>NONE\<close> and the connection failures a transport reports; connection.ts itself only ever
  writes \<open>NONE\<close>.
\<close>

datatype ConnectionErrorCode = NONE | TransportFailure nat

record ConnectionParameters =
  ptype :: string
  settings :: string

record InstrumentObject =
  instrumentId :: string
  lastConnection :: "ConnectionParameters option"
  autoConnect :: bool

text \<open>The two transports \<open>connect\<close> chooses from; their I/O is outside the engine.\<close>

datatype CommunicationInterface = EthernetInterface | SerialInterface

text \<open>
  Modelled from the spec: \<open>parseScpiValue\<close> (instrument/scpi) is not among the sources. It
  returns a string, a number or a structured value; the connection only asks whether the
  result is a string.
\<close>

datatype ScpiValue = StringValue string | NumericValue int | StructuredValue string

text \<open>
  Modelled from the spec: the classes \<open>FileUpload\<close> and \<open>FileDownload\<close> are not among the
  sources; connection.ts sees them through the interface \<open>LongOperation\<close>. An operation
  is the record of what the interface exposes: the class (for \<open>instanceof\<close>), the log
  entry, what \<open>isDone()\<close> reports and \<open>dataSurplus\<close>. The methods \<open>onData\<close> and \<open>abort\<close> and
  the two constructors are parameters (\<open>Collaborators\<close> below); they act on the operation
  object. The constant \<open>CONF_COMBINE_IF_BELOW_MS\<close> of instrument/conf, which is not among
  the sources either, is a parameter as well.
\<close>

datatype LongOperationClass = FileUpload | FileDownload | OtherOperation

record LongOperation =
  opClass :: LongOperationClass
  logId :: string
  logEntry :: string
  isDone :: bool
  dataSurplus :: "string option"

definition isFileTransfer :: "LongOperation \<Rightarrow> bool" where
  "isFileTransfer lo = (opClass lo = FileUpload \<or> opClass lo = FileDownload)"

record Collaborators =
  parseScpiValue :: "string \<Rightarrow> ScpiValue"
  newFileUpload :: "string \<Rightarrow> LongOperation"
  newFileDownload :: "string \<Rightarrow> LongOperation"
  opOnData :: "LongOperation \<Rightarrow> string \<Rightarrow> LongOperation"
  opAbort :: "LongOperation \<Rightarrow> LongOperation"
  CONF_COMBINE_IF_BELOW_MS :: nat

datatype LogEntry =
    Request string
  | Answer string
  | ConnectedEntry "ConnectionParameters option"
  | DisconnectedEntry "int option" "string option"
  | ConnectFailedEntry "ConnectionParameters option" "string option"

datatype SentValue = ParsedValue ScpiValue | LongOperationLogEntry string

datatype Effect =
    ConsoleError string
  | Log LogEntry
  | SendValue nat SentValue
  | SetIdn string
  | TransportNew CommunicationInterface
  | TransportConnect
  | TransportDisconnect
  | TransportWrite string
  | Uncaught string

datatype TimerCallback = FlushDataTimeout | IdnExpectedTimeout | HousekeepingInterval

type_synonym Timer = "nat \<times> TimerCallback \<times> nat"

record Connection =
  instrument :: InstrumentObject
  state :: ConnectionState
  errorCode :: ConnectionErrorCode
  error :: "string option"
  communicationInterface :: "CommunicationInterface option"
  wasConnected :: bool
  connectedStartTime :: "int option"
  data :: "string option"
  idnExpected :: bool
  idnExpectedTimeout :: "nat option"
  dataTimeoutId :: "nat option"
  longOperation :: "LongOperation option"
  connectionParameters :: "ConnectionParameters option"
  housekeepingIntervalId :: "nat option"
  callbackWindowId :: "nat option"
  traceEnabled :: bool
  timers :: "Timer list"
  nextTimerId :: nat
  trace :: "Effect list"

definition CONF_HOUSEKEEPING_INTERVAL :: nat where
  "CONF_HOUSEKEEPING_INTERVAL = 100"

definition CONF_IDN_EXPECTED_TIMEOUT :: nat where
  "CONF_IDN_EXPECTED_TIMEOUT = 1000"

subsection \<open>The runtime: effects and timers\<close>

definition emit :: "Effect \<Rightarrow> Connection \<Rightarrow> Connection" where
  "emit e c = c\<lparr>trace := trace c @ [e]\<rparr>"

text \<open>
  \<open>setTimeout\<close> and \<open>setInterval\<close> hand out a fresh handle and leave the timer pending;
  \<open>clearTimeout\<close> and \<open>clearInterval\<close> drop the pending timer with that handle, if any.
  A handle is an object of the runtime, so a field that holds one is truthy.
\<close>

definition setTimeout :: "TimerCallback \<Rightarrow> nat \<Rightarrow> Connection \<Rightarrow> nat \<times> Connection" where
  "setTimeout cb delay c =
     (nextTimerId c,
      c\<lparr>timers := timers c @ [(nextTimerId c, cb, delay)], nextTimerId := Suc (nextTimerId c)\<rparr>)"

definition clearTimeout :: "nat \<Rightarrow> Connection \<Rightarrow> Connection" where
  "clearTimeout h c = c\<lparr>timers := filter (\<lambda>t. fst t \<noteq> h) (timers c)\<rparr>"

definition pending :: "Connection \<Rightarrow> nat \<Rightarrow> (TimerCallback \<times> nat) option" where
  "pending c h = map_of (timers c) h"

subsection \<open>JavaScript strings\<close>

definition newline :: char where
  "newline = CHR 0x0A"

fun indexOf :: "string \<Rightarrow> char \<Rightarrow> int" where
  "indexOf [] ch = -1"
| "indexOf (x # xs) ch =
     (if x = ch then 0 else (let i = indexOf xs ch in if i = -1 then -1 else i + 1))"

definition startsWith :: "string \<Rightarrow> string \<Rightarrow> bool" where
  "startsWith s p = (take (length p) s = p)"

definition substr :: "string \<Rightarrow> nat \<Rightarrow> nat \<Rightarrow> string" where
  "substr s start len = take len (drop start s)"

definition substr_from :: "string \<Rightarrow> nat \<Rightarrow> string" where
  "substr_from s start = drop start s"

subsection \<open>Methods of Connection\<close>

definition newConnection_fields :: "InstrumentObject \<Rightarrow> Connection" where
  "newConnection_fields ins =
     \<lparr>instrument = ins, state = IDLE, errorCode = NONE, error = None,
      communicationInterface = None, wasConnected = False, connectedStartTime = None,
      data = None, idnExpected = False, idnExpectedTimeout = None, dataTimeoutId = None,
      longOperation = None, connectionParameters = None, housekeepingIntervalId = None,
      callbackWindowId = None, traceEnabled = True, timers = [], nextTimerId = 1,
      trace = []\<rparr>"

definition dismissError :: "Connection \<Rightarrow> Connection" where
  "dismissError c = c\<lparr>error := None\<rparr>"

definition setError :: "ConnectionErrorCode \<Rightarrow> string option \<Rightarrow> Connection \<Rightarrow> Connection" where
  "setError code msg c = c\<lparr>errorCode := code, error := msg\<rparr>"

text \<open>
  \<open>connect\<close>: the cast of \<open>instrument.lastConnection\<close> does nothing at run time, so reading
  \<open>.type\<close> of an absent value throws after the state is already \<open>CONNECTING\<close>.
\<close>

definition connect :: "Connection \<Rightarrow> Connection" where
  "connect c =
     (if state c \<noteq> IDLE then emit (ConsoleError ''invalid state (connect)'') c
      else
        (let c1 = c\<lparr>state := CONNECTING, errorCode := NONE, error := None,
                     connectionParameters := lastConnection (instrument c)\<rparr>
         in case connectionParameters c1 of
              None \<Rightarrow> emit (Uncaught ''TypeError'') c1
            | Some p \<Rightarrow>
                (let i = (if ptype p = ''ethernet'' then EthernetInterface else SerialInterface)
                 in emit TransportConnect
                      (emit (TransportNew i) (c1\<lparr>communicationInterface := Some i\<rparr>)))))"

definition newConnection :: "InstrumentObject \<Rightarrow> Connection" where
  "newConnection ins =
     (if lastConnection ins \<noteq> None \<and> autoConnect ins
      then connect (newConnection_fields ins) else newConnection_fields ins)"

definition logRequest :: "string \<Rightarrow> Connection \<Rightarrow> Connection" where
  "logRequest d c = (if traceEnabled c then emit (Log (Request d)) c else c)"

definition logAnswer :: "string \<Rightarrow> Connection \<Rightarrow> Connection" where
  "logAnswer d c = (if traceEnabled c then emit (Log (Answer d)) c else c)"

definition sendValue :: "SentValue \<Rightarrow> Connection \<Rightarrow> Connection" where
  "sendValue v c =
     (case callbackWindowId c of
        None \<Rightarrow> c
      | Some w \<Rightarrow> if w \<noteq> 0 then emit (SendValue w v) c else c)"

text \<open>\<open>longOperationDone\<close> is only called with an operation in place (\<open>this.longOperation!\<close>).\<close>

definition longOperationDone :: "Connection \<Rightarrow> Connection" where
  "longOperationDone c =
     (case longOperation c of
        None \<Rightarrow> emit (Uncaught ''TypeError'') c
      | Some lo \<Rightarrow> (sendValue (LongOperationLogEntry (logEntry lo)) c)\<lparr>longOperation := None\<rparr>)"

definition disconnect :: "Connection \<Rightarrow> Connection" where
  "disconnect c =
     (if state c = IDLE \<or> communicationInterface c = None
      then emit (ConsoleError ''invalid state (disconnect)'') c
      else emit TransportDisconnect (c\<lparr>state := DISCONNECTING\<rparr>))"

definition onDataLineReceived :: "Collaborators \<Rightarrow> string \<Rightarrow> Connection \<Rightarrow> Connection" where
  "onDataLineReceived env d c =
     (let c1 = logAnswer d c;
          v = parseScpiValue env d;
          c2 = sendValue (ParsedValue v) c1
      in if idnExpected c2 then
           (let c3 = (case idnExpectedTimeout c2 of
                        None \<Rightarrow> c2
                      | Some h \<Rightarrow> clearTimeout h c2);
                c4 = c3\<lparr>idnExpectedTimeout := None, idnExpected := False\<rparr>
            in case v of
                 StringValue s \<Rightarrow> emit (SetIdn s) c4
               | _ \<Rightarrow> disconnect (setError NONE (Some ''Invalid IDN value.'') c4))
         else c2)"

definition flushData :: "Collaborators \<Rightarrow> Connection \<Rightarrow> Connection" where
  "flushData env c =
     (let c1 = (case longOperation c of
                  None \<Rightarrow> c
                | Some lo \<Rightarrow> (let aborted = opAbort env lo in c\<lparr>longOperation := None\<rparr>));
          c2 = (case dataTimeoutId c1 of
                  None \<Rightarrow> c1
                | Some h \<Rightarrow> (clearTimeout h c1)\<lparr>dataTimeoutId := None\<rparr>)
      in case data c2 of
           None \<Rightarrow> c2
         | Some d \<Rightarrow> if d \<noteq> [] then (logAnswer d c2)\<lparr>data := None\<rparr> else c2)"

definition housekeeping :: "Connection \<Rightarrow> Connection" where
  "housekeeping c =
     (case longOperation c of
        None \<Rightarrow> c
      | Some lo \<Rightarrow>
          if isDone lo then (longOperationDone c)\<lparr>data := dataSurplus lo\<rparr> else c)"

text \<open>
  Lines 339 to 353 of \<open>onData\<close>: append the chunk to the buffer and cut the buffer after its
  first terminator. The result is the new buffer and the line cut off, if any.
\<close>

definition extractLine :: "string option \<Rightarrow> string \<Rightarrow> string option \<times> string option" where
  "extractLine buf d =
     (let b = (case buf of None \<Rightarrow> d | Some old \<Rightarrow> old @ d);
          index = indexOf b newline
      in if index \<noteq> -1 then
           (let index' = nat (index + 1);
                line = substr b 0 index'
            in if index' < length b then (Some (substr_from b index'), Some line)
               else (None, Some line))
         else (Some b, None))"

text \<open>
  Lines 339 to 362 of \<open>onData\<close>, which the method reaches with the chunk or with the surplus
  of the operation that has just completed.
\<close>

definition onData_lines :: "Collaborators \<Rightarrow> string \<Rightarrow> Connection \<Rightarrow> Connection" where
  "onData_lines env d c =
     (let (buf, line) = extractLine (data c) d;
          c1 = c\<lparr>data := buf\<rparr>;
          c2 = (case line of None \<Rightarrow> c1 | Some l \<Rightarrow> onDataLineReceived env l c1)
      in if data c2 \<noteq> None then
           (let (h, c3) = setTimeout FlushDataTimeout (CONF_COMBINE_IF_BELOW_MS env) c2
            in c3\<lparr>dataTimeoutId := Some h\<rparr>)
         else c2)"

definition onData :: "Collaborators \<Rightarrow> string \<Rightarrow> Connection \<Rightarrow> Connection" where
  "onData env d c =
     (let c1 = (case dataTimeoutId c of None \<Rightarrow> c | Some h \<Rightarrow> clearTimeout h c);
          c2 = (case longOperation c1 of
                  Some lo \<Rightarrow> c1\<lparr>longOperation := Some (opOnData env lo d)\<rparr>
                | None \<Rightarrow>
                    if data c1 = None \<and> startsWith d ''#''
                    then c1\<lparr>longOperation := Some (newFileUpload env d)\<rparr> else c1)
      in case longOperation c2 of
           Some lo \<Rightarrow>
             if \<not> isDone lo then c2
             else
               (let c3 = longOperationDone c2
                in case dataSurplus lo of
                     None \<Rightarrow> c3
                   | Some surplus \<Rightarrow> onData_lines env surplus c3)
         | None \<Rightarrow> onData_lines env d c2)"

text \<open>
  The options of \<open>send\<close>: the object may be absent, and so may each of its fields
  (an absent field is falsy).
\<close>

record SendOptions =
  log_opt :: "bool option"
  longOperation_opt :: "bool option"

definition truthy :: "bool option \<Rightarrow> bool" where
  "truthy b = (b = Some True)"

definition send :: "string \<Rightarrow> SendOptions option \<Rightarrow> Connection \<Rightarrow> Connection" where
  "send command options c =
     (let c1 = (if (case options of None \<Rightarrow> True | Some opts \<Rightarrow> truthy (log_opt opts))
                then logRequest command c else c)
      in if state c1 \<noteq> CONNECTED \<or> communicationInterface c1 = None
         then logAnswer (''**ERROR: not connected'' @ [newline]) c1
         else
           (case (if (case options of None \<Rightarrow> True
                      | Some opts \<Rightarrow> \<not> truthy (longOperation_opt opts))
                  then longOperation c1 else None) of
              Some lo \<Rightarrow>
                if isFileTransfer lo
                then logAnswer (''**ERROR: file transfer in progress'' @ [newline]) c1
                else logAnswer (''**ERROR: another operation in progress'' @ [newline]) c1
            | None \<Rightarrow>
                emit (TransportWrite (command @ [newline]))
                  (c1\<lparr>errorCode := NONE, error := None\<rparr>)))"

definition sendIdn :: "Collaborators \<Rightarrow> Connection \<Rightarrow> Connection" where
  "sendIdn env c =
     (if state c \<noteq> CONNECTED
      then emit (ConsoleError ''invalid state (this.state !== ConnectionState.CONNECTED)'') c
      else if communicationInterface c = None
      then emit (ConsoleError ''invalid state (!this.connectionInterfaceImplementation)'') c
      else
        (let c1 = send ''*IDN?'' None c;
             c2 = flushData env c1;
             c3 = c2\<lparr>idnExpected := True\<rparr>;
             (h, c4) = setTimeout IdnExpectedTimeout CONF_IDN_EXPECTED_TIMEOUT c3
         in c4\<lparr>idnExpectedTimeout := Some h\<rparr>))"

text \<open>The callback of the timer armed by \<open>sendIdn\<close>.\<close>

definition idnExpectedTimeout_fired :: "Connection \<Rightarrow> Connection" where
  "idnExpectedTimeout_fired c =
     disconnect (setError NONE (Some ''Timeout (no response to IDN query).'') c)"

definition connected :: "Collaborators \<Rightarrow> int \<Rightarrow> Connection \<Rightarrow> Connection" where
  "connected env now c =
     (let c1 = c\<lparr>state := CONNECTED\<rparr>;
          c2 = emit (Log (ConnectedEntry (connectionParameters c1))) c1;
          c3 = c2\<lparr>wasConnected := True, connectedStartTime := Some now\<rparr>;
          c4 = sendIdn env c3;
          (h, c5) = setTimeout HousekeepingInterval CONF_HOUSEKEEPING_INTERVAL c4
      in c5\<lparr>housekeepingIntervalId := Some h\<rparr>)"

text \<open>\<open>startLongOperation\<close> throws a string; \<open>Inl\<close> is the string thrown.\<close>

definition startLongOperation ::
    "(unit \<Rightarrow> LongOperation) \<Rightarrow> Connection \<Rightarrow> string + Connection" where
  "startLongOperation createLongOperation c =
     (if state c \<noteq> CONNECTED \<or> communicationInterface c = None then Inl ''not connected''
      else case longOperation c of
             Some lo \<Rightarrow>
               if isFileTransfer lo then Inl ''file transfer in progress''
               else Inl ''another operation in progress''
           | None \<Rightarrow> Inr (c\<lparr>longOperation := Some (createLongOperation ())\<rparr>))"

definition download :: "Collaborators \<Rightarrow> string \<Rightarrow> Connection \<Rightarrow> Connection" where
  "download env instructions c =
     (case startLongOperation (\<lambda>u. newFileDownload env instructions) c of
        Inr c' \<Rightarrow> c'
      | Inl err \<Rightarrow> logAnswer (''**ERROR: '' @ err @ [newline]) c)"

definition abortLongOperation :: "Collaborators \<Rightarrow> Connection \<Rightarrow> Connection" where
  "abortLongOperation env c =
     (case longOperation c of
        None \<Rightarrow> c
      | Some lo \<Rightarrow> c\<lparr>longOperation := Some (opAbort env lo)\<rparr>)"

text \<open>
  \<open>disconnected\<close>: the duration is the difference of two clock readings; it is absent
  (not a number) when no start time was ever recorded.
\<close>

definition disconnected :: "Collaborators \<Rightarrow> int \<Rightarrow> Connection \<Rightarrow> Connection" where
  "disconnected env now c =
     (let c1 = c\<lparr>communicationInterface := None, state := IDLE\<rparr>;
          c2 = (if wasConnected c1 then
                  (let c' = flushData env c1;
                       duration = map_option (\<lambda>t. now - t) (connectedStartTime c')
                   in (emit (Log (DisconnectedEntry duration (error c'))) c')
                        \<lparr>wasConnected := False\<rparr>)
                else emit (Log (ConnectFailedEntry (connectionParameters c1) (error c1))) c1)
      in case housekeepingIntervalId c2 of
           None \<Rightarrow> c2
         | Some h \<Rightarrow> (clearTimeout h c2)\<lparr>housekeepingIntervalId := None\<rparr>)"

definition acquire :: "nat \<Rightarrow> bool \<Rightarrow> Connection \<Rightarrow> string option \<times> Connection" where
  "acquire w t c =
     (if state c \<noteq> CONNECTED then (Some ''not connected'', c)
      else (None, c\<lparr>callbackWindowId := Some w, traceEnabled := t\<rparr>))"

definition release :: "Connection \<Rightarrow> Connection" where
  "release c = c\<lparr>callbackWindowId := None, traceEnabled := True\<rparr>"

definition destroy :: "Connection \<Rightarrow> Connection" where
  "destroy c = disconnect c"

subsection \<open>Timers firing\<close>

text \<open>
  A pending timer fires: a timeout is no longer pending when its callback runs, an interval
  stays. A handle with no pending timer does nothing.
\<close>

definition fireTimer :: "Collaborators \<Rightarrow> nat \<Rightarrow> Connection \<Rightarrow> Connection" where
  "fireTimer env h c =
     (case pending c h of
        None \<Rightarrow> c
      | Some (cb, delay) \<Rightarrow>
          (case cb of
             HousekeepingInterval \<Rightarrow> housekeeping c
           | FlushDataTimeout \<Rightarrow> flushData env (clearTimeout h c)
           | IdnExpectedTimeout \<Rightarrow> idnExpectedTimeout_fired (clearTimeout h c)))"

subsection \<open>Sessions: the calls and events a connection receives\<close>

datatype Action =
    Connect
  | Disconnect
  | Destroy
  | Send string "SendOptions option"
  | Download string
  | StartLongOperation LongOperation
  | AbortLongOperation
  | Acquire nat bool
  | Release
  | DismissError
  | SetError ConnectionErrorCode "string option"
  | TransportConnected int
  | TransportDisconnected int
  | TransportData string
  | TimerFires nat

fun step :: "Collaborators \<Rightarrow> Action \<Rightarrow> Connection \<Rightarrow> Connection" where
  "step env Connect c = connect c"
| "step env Disconnect c = disconnect c"
| "step env Destroy c = destroy c"
| "step env (Send command options) c = send command options c"
| "step env (Download instructions) c = download env instructions c"
| "step env (StartLongOperation lo) c =
     (case startLongOperation (\<lambda>u. lo) c of Inl err \<Rightarrow> c | Inr c' \<Rightarrow> c')"
| "step env AbortLongOperation c = abortLongOperation env c"
| "step env (Acquire w t) c = snd (acquire w t c)"
| "step env Release c = release c"
| "step env DismissError c = dismissError c"
| "step env (SetError code msg) c = setError code msg c"
| "step env (TransportConnected now) c = connected env now c"
| "step env (TransportDisconnected now) c = disconnected env now c"
| "step env (TransportData d) c = onData env d c"
| "step env (TimerFires h) c = fireTimer env h c"

fun run :: "Collaborators \<Rightarrow> Action list \<Rightarrow> Connection \<Rightarrow> Connection" where
  "run env [] c = c"
| "run env (a # as) c = run env as (step env a c)"


subsection \<open>Observations on the trace\<close>

fun isWrite :: "Effect \<Rightarrow> bool" where
  "isWrite (TransportWrite w) = True"
| "isWrite e = False"

definition writes :: "Effect list \<Rightarrow> Effect list" where
  "writes t = filter isWrite t"

fun answerOf :: "Effect \<Rightarrow> string list" where
  "answerOf (Log (Answer l)) = [l]"
| "answerOf e = []"

definition answers :: "Effect list \<Rightarrow> string list" where
  "answers t = concat (map answerOf t)"

subsection \<open>Chunk sequences\<close>


subsection \<open>The framing the specification describes\<close>











subsection \<open>Conditions the properties are stated with\<close>

text \<open>
  \<open>send\<close> does not reach the transport: the connection is not \<open>CONNECTED\<close>, or has no
  transport, or an operation is active and the options do not mark the command as
  long-operation-initiating.
\<close>

definition sendBlocked :: "SendOptions option \<Rightarrow> Connection \<Rightarrow> bool" where
  "sendBlocked options c =
     (state c \<noteq> CONNECTED \<or> communicationInterface c = None
      \<or> (longOperation c \<noteq> None
          \<and> (case options of None \<Rightarrow> True | Some opts \<Rightarrow> \<not> truthy (longOperation_opt opts))))"

text \<open>The synthetic error line of a blocked \<open>send\<close>.\<close>

definition sendErrorLine :: "Connection \<Rightarrow> string" where
  "sendErrorLine c =
     (if state c \<noteq> CONNECTED \<or> communicationInterface c = None
      then ''**ERROR: not connected'' @ [newline]
      else case longOperation c of
             None \<Rightarrow> []
           | Some lo \<Rightarrow>
               if isFileTransfer lo then ''**ERROR: file transfer in progress'' @ [newline]
               else ''**ERROR: another operation in progress'' @ [newline])"

text \<open>The options do not suppress logging: they are absent, or their \<open>log\<close> is true.\<close>

definition requestLogged :: "SendOptions option \<Rightarrow> bool" where
  "requestLogged options = (case options of None \<Rightarrow> True | Some opts \<Rightarrow> truthy (log_opt opts))"










subsection \<open>Sample collaborators and connections\<close>

text \<open>
  Concrete values on which the model is run: an instrument reached over ethernet, an upload
  that completes on the first chunk it is fed and reports the chunk as surplus, and a
  connection in each situation the theorems speak about.
\<close>

definition sampleInstrument :: InstrumentObject where
  "sampleInstrument =
     \<lparr>instrumentId = ''psu'',
      lastConnection = Some \<lparr>ptype = ''ethernet'', settings = ''192.168.1.5''\<rparr>,
      autoConnect = False\<rparr>"

definition sampleOperation :: "LongOperationClass \<Rightarrow> LongOperation" where
  "sampleOperation k =
     \<lparr>opClass = k, logId = ''7'', logEntry = ''transfer'', isDone = False, dataSurplus = None\<rparr>"

definition sampleEnv :: Collaborators where
  "sampleEnv =
     \<lparr>parseScpiValue = (\<lambda>s. if startsWith s ''1'' then NumericValue 1 else StringValue s),
      newFileUpload = (\<lambda>d. sampleOperation FileUpload),
      newFileDownload = (\<lambda>d. sampleOperation FileDownload),
      opOnData = (\<lambda>lo d. lo\<lparr>isDone := True, dataSurplus := Some d\<rparr>),
      opAbort = (\<lambda>lo. lo\<lparr>isDone := True\<rparr>),
      CONF_COMBINE_IF_BELOW_MS = 250\<rparr>"

definition sampleIdle :: Connection where
  "sampleIdle = newConnection_fields sampleInstrument"

definition sampleConnecting :: Connection where
  "sampleConnecting =
     sampleIdle\<lparr>state := CONNECTING, communicationInterface := Some EthernetInterface,
                connectionParameters := lastConnection sampleInstrument\<rparr>"

text \<open>A connection in use: connected, identified, with the housekeeping interval pending.\<close>

definition sampleConnected :: Connection where
  "sampleConnected =
     sampleIdle\<lparr>state := CONNECTED, communicationInterface := Some EthernetInterface,
                connectionParameters := lastConnection sampleInstrument,
                wasConnected := True, connectedStartTime := Some 0,
                housekeepingIntervalId := Some 2,
                timers := [(2, HousekeepingInterval, 100)], nextTimerId := 3\<rparr>"

definition sampleUploading :: Connection where
  "sampleUploading = sampleConnected\<lparr>longOperation := Some (sampleOperation FileUpload)\<rparr>"

text \<open>A controller has acquired the connection with tracing off while an upload runs.\<close>

definition sampleBusyUntraced :: Connection where
  "sampleBusyUntraced =
     sampleConnected\<lparr>longOperation := Some (sampleOperation FileUpload),
                     callbackWindowId := Some 4, traceEnabled := False\<rparr>"

text \<open>The same with an operation that is not a file transfer.\<close>

definition sampleOtherBusyUntraced :: Connection where
  "sampleOtherBusyUntraced =
     sampleConnected\<lparr>longOperation := Some (sampleOperation OtherOperation),
                     callbackWindowId := Some 4, traceEnabled := False\<rparr>"

text \<open>
  A controller acquires the connection with tracing off and never releases it; the
  connection is then closed.
\<close>

definition sampleUntracedIdle :: Connection where
  "sampleUntracedIdle =
     run sampleEnv [Acquire 4 False, Disconnect, TransportDisconnected 9] sampleConnected"

definition sampleOtherBusy :: Connection where
  "sampleOtherBusy = sampleConnected\<lparr>longOperation := Some (sampleOperation OtherOperation)\<rparr>"






section \<open>Properties\<close>

lemmas sample_defs = sampleIdle_def sampleConnecting_def sampleConnected_def
  sampleInstrument_def sampleEnv_def sampleOperation_def newConnection_fields_def

subsection \<open>connect outside IDLE\<close>

text \<open>
  C3. In every state other than \<open>IDLE\<close>, \<open>connect()\<close> leaves the state, the error code and
  the error message as they are, constructs and contacts no transport, and reports a local
  fault only: the connection after the call is the connection before it with one console
  error added to the trace.
\<close>

theorem connect_outside_idle:
  assumes "state c \<noteq> IDLE"
  shows "connect c = c\<lparr>trace := trace c @ [ConsoleError ''invalid state (connect)'']\<rparr>
       \<and> state (connect c) = state c
       \<and> errorCode (connect c) = errorCode c
       \<and> error (connect c) = error c
       \<and> communicationInterface (connect c) = communicationInterface c"
  using assms by (simp add: connect_def emit_def)

theorem connect_outside_idle_witness:
  "state sampleConnected \<noteq> IDLE
   \<and> connect sampleConnected
       = sampleConnected\<lparr>trace := trace sampleConnected
                                   @ [ConsoleError ''invalid state (connect)'']\<rparr>
   \<and> state (connect sampleConnected) = CONNECTED
   \<and> errorCode (connect sampleConnected) = NONE
   \<and> error (connect sampleConnected) = None
   \<and> communicationInterface (connect sampleConnected) = Some EthernetInterface"
proof -
  have h: "state sampleConnected \<noteq> IDLE" by (simp add: sample_defs)
  show ?thesis using h connect_outside_idle [OF h] by (simp add: sample_defs)
qed

subsection \<open>send while it may not reach the transport\<close>

text \<open>
  C4, as the claim states it, fails: the synthetic error line is written by \<open>logAnswer\<close>,
  which does nothing when tracing is off. With an upload active and tracing off, a plain
  \<open>send\<close> leaves the connection and the trace exactly as they were: no line at all.
\<close>

theorem send_untraced_counterexample:
  "state sampleBusyUntraced = CONNECTED
   \<and> longOperation sampleBusyUntraced = Some (sampleOperation FileUpload)
   \<and> send ''MEAS?'' None sampleBusyUntraced = sampleBusyUntraced
   \<and> trace (send ''MEAS?'' None sampleBusyUntraced) = []"
  by code_simp

text \<open>
  C4, amended. A \<open>send\<close> that is blocked (not \<open>CONNECTED\<close>, or no transport, or an operation
  active and the command not marked long-operation-initiating) changes no field of the
  connection and writes nothing to the transport. When tracing is enabled it logs the
  synthetic error line: not connected, file transfer in progress, or another operation in
  progress. When tracing is disabled it logs nothing.
\<close>

theorem send_blocked:
  assumes "sendBlocked options c"
  shows "send command options c
         = c\<lparr>trace := trace c
               @ (if traceEnabled c \<and> requestLogged options then [Log (Request command)] else [])
               @ (if traceEnabled c then [Log (Answer (sendErrorLine c))] else [])\<rparr>
       \<and> writes (trace (send command options c)) = writes (trace c)"
  using assms
  by (auto simp add: sendBlocked_def sendErrorLine_def requestLogged_def send_def
      logRequest_def logAnswer_def emit_def writes_def Let_def split: option.splits)

theorem send_blocked_witness:
  "sendBlocked None sampleUploading
   \<and> send ''MEAS?'' None sampleUploading
       = sampleUploading\<lparr>trace := [Log (Request ''MEAS?''),
            Log (Answer (''**ERROR: file transfer in progress'' @ [newline]))]\<rparr>
   \<and> writes (trace (send ''MEAS?'' None sampleUploading)) = []"
proof -
  have h: "sendBlocked None sampleUploading"
    by (simp add: sendBlocked_def sampleUploading_def sample_defs)
  have e: "sendErrorLine sampleUploading = ''**ERROR: file transfer in progress'' @ [newline]"
    by (simp add: sendErrorLine_def sampleUploading_def sample_defs isFileTransfer_def)
  have t: "trace sampleUploading = [] \<and> traceEnabled sampleUploading \<and> requestLogged None"
    by (simp add: sampleUploading_def sample_defs requestLogged_def)
  from send_blocked [OF h, of "''MEAS?''"] h e t show ?thesis by (simp add: writes_def)
qed

subsection \<open>The request entry of a send\<close>

text \<open>
  C10, as the claim states it, fails: \<open>logRequest\<close> is guarded by \<open>traceEnabled\<close>, which the
  options of \<open>send\<close> do not control. After a controller acquired the connection with tracing
  off and the connection was closed, a \<open>send\<close> without options records no request.
\<close>

theorem send_request_untraced_counterexample:
  "state sampleUntracedIdle = IDLE
   \<and> traceEnabled sampleUntracedIdle = False
   \<and> requestLogged None
   \<and> trace (send ''*RST'' None sampleUntracedIdle) = trace sampleUntracedIdle
   \<and> Log (Request ''*RST'') \<notin> set (trace (send ''*RST'' None sampleUntracedIdle))"
  by code_simp

text \<open>
  C10, amended. When the options do not suppress logging and tracing is enabled on the
  connection, the request entry is the first effect of \<open>send\<close>, before any precondition is
  checked; a blocked \<open>send\<close> then records the request, followed by the synthetic error line.
\<close>

theorem send_logs_request_first:
  assumes "requestLogged options" and "traceEnabled c"
  shows "take (Suc (length (trace c))) (trace (send command options c))
           = trace c @ [Log (Request command)]
       \<and> (sendBlocked options c \<longrightarrow>
            trace (send command options c)
              = trace c @ [Log (Request command), Log (Answer (sendErrorLine c))])"
  using assms
  by (auto simp add: sendBlocked_def sendErrorLine_def requestLogged_def send_def logRequest_def
      logAnswer_def emit_def Let_def split: option.splits)

theorem send_logs_request_first_witness:
  "requestLogged None \<and> traceEnabled sampleIdle \<and> sendBlocked None sampleIdle
   \<and> take (Suc (length (trace sampleIdle))) (trace (send ''*RST'' None sampleIdle))
       = trace sampleIdle @ [Log (Request ''*RST'')]
   \<and> trace (send ''*RST'' None sampleIdle)
       = [Log (Request ''*RST''), Log (Answer (''**ERROR: not connected'' @ [newline]))]"
proof -
  have h1: "requestLogged None" by (simp add: requestLogged_def)
  have h2: "traceEnabled sampleIdle" by (simp add: sample_defs)
  have h3: "sendBlocked None sampleIdle" by (simp add: sendBlocked_def sample_defs)
  have e: "sendErrorLine sampleIdle = ''**ERROR: not connected'' @ [newline]"
    by (simp add: sendErrorLine_def sample_defs)
  have t: "trace sampleIdle = []" by (simp add: sample_defs)
  from send_logs_request_first [OF h1 h2, of "''*RST''"] h3 e t h1 h2 show ?thesis by simp
qed

subsection \<open>Lines received leave the buffer and the operation alone\<close>

lemma onDataLineReceived_keeps:
  "longOperation (onDataLineReceived env l c) = longOperation c"
  "data (onDataLineReceived env l c) = data c"
  "traceEnabled (onDataLineReceived env l c) = traceEnabled c"
  "nextTimerId (onDataLineReceived env l c) = nextTimerId c"
  "dataTimeoutId (onDataLineReceived env l c) = dataTimeoutId c"
  "callbackWindowId (onDataLineReceived env l c) = callbackWindowId c"
  by (simp_all add: onDataLineReceived_def Let_def logAnswer_def sendValue_def emit_def
      clearTimeout_def disconnect_def setError_def split: option.splits ScpiValue.splits)


lemma onData_lines_data:
  "data (onData_lines env d c) = fst (extractLine (data c) d)"
  by (simp add: onData_lines_def Let_def setTimeout_def onDataLineReceived_keeps
      split: prod.splits option.splits)

subsection \<open>Starting a long operation\<close>

text \<open>
  C8, as the claim states it, fails for \<open>download\<close>: it reports the error of
  \<open>startLongOperation\<close> through \<open>logAnswer\<close>, which does nothing when tracing is off. A
  failed \<open>download\<close> is then silent, whatever the cause: with a file transfer in progress
  and with another operation in progress the connection and the trace are left as they
  were, so nothing tells the two causes apart.
\<close>

theorem download_untraced_counterexample:
  "traceEnabled sampleBusyUntraced = False
   \<and> longOperation sampleBusyUntraced = Some (sampleOperation FileUpload)
   \<and> download sampleEnv ''file'' sampleBusyUntraced = sampleBusyUntraced
   \<and> longOperation sampleOtherBusyUntraced = Some (sampleOperation OtherOperation)
   \<and> download sampleEnv ''file'' sampleOtherBusyUntraced = sampleOtherBusyUntraced
   \<and> trace (download sampleEnv ''file'' sampleBusyUntraced)
       = trace (download sampleEnv ''file'' sampleOtherBusyUntraced)"
  by code_simp

text \<open>
  C8, amended. \<open>startLongOperation\<close> installs the operation it creates exactly when the
  connection is \<open>CONNECTED\<close>, has a transport and holds no operation; the connection it
  returns differs from the one it was given in the field \<open>longOperation\<close> only. Otherwise it
  throws before any assignment (the result \<open>Inl\<close> carries no connection: the caller keeps
  the one it had), and what it throws tells a file transfer in progress from another
  operation in progress. \<open>download\<close> installs a new \<open>FileDownload\<close> in the first case; in the
  second it changes no field of the connection and records the error thrown as an answer
  entry of the activity log when tracing is on, and nothing when tracing is off.
\<close>

theorem startLongOperation_fails_fast:
  "(startLongOperation mk c = Inr c'
      \<longleftrightarrow> state c = CONNECTED \<and> communicationInterface c \<noteq> None \<and> longOperation c = None
          \<and> c' = c\<lparr>longOperation := Some (mk ())\<rparr>)
   \<and> (startLongOperation mk c = Inl err
      \<longleftrightarrow> (if state c \<noteq> CONNECTED \<or> communicationInterface c = None
           then err = ''not connected''
           else \<exists>lo. longOperation c = Some lo
                  \<and> err = (if isFileTransfer lo then ''file transfer in progress''
                           else ''another operation in progress'')))
   \<and> (download env instructions c
        = (case startLongOperation (\<lambda>u. newFileDownload env instructions) c of
             Inr c' \<Rightarrow> c\<lparr>longOperation := Some (newFileDownload env instructions)\<rparr>
           | Inl err \<Rightarrow>
               c\<lparr>trace := trace c
                    @ (if traceEnabled c then [Log (Answer (''**ERROR: '' @ err @ [newline]))]
                       else [])\<rparr>))"
  by (auto simp add: startLongOperation_def download_def logAnswer_def emit_def
      split: option.splits sum.splits)

theorem startLongOperation_fails_fast_witness:
  "startLongOperation (\<lambda>u. sampleOperation FileDownload) sampleConnected
     = Inr (sampleConnected\<lparr>longOperation := Some (sampleOperation FileDownload)\<rparr>)
   \<and> startLongOperation (\<lambda>u. sampleOperation FileDownload) sampleIdle = Inl ''not connected''
   \<and> startLongOperation (\<lambda>u. sampleOperation FileDownload) sampleUploading
       = Inl ''file transfer in progress''
   \<and> startLongOperation (\<lambda>u. sampleOperation FileDownload) sampleOtherBusy
       = Inl ''another operation in progress''
   \<and> download sampleEnv ''file'' sampleUploading
       = sampleUploading\<lparr>trace :=
           [Log (Answer (''**ERROR: file transfer in progress'' @ [newline]))]\<rparr>"
proof -
  let ?mk = "\<lambda>u::unit. sampleOperation FileDownload"
  have a: "startLongOperation ?mk sampleConnected
             = Inr (sampleConnected\<lparr>longOperation := Some (sampleOperation FileDownload)\<rparr>)"
    using startLongOperation_fails_fast
      [of ?mk sampleConnected
          "sampleConnected\<lparr>longOperation := Some (sampleOperation FileDownload)\<rparr>"]
    by (simp add: sample_defs)
  have b: "startLongOperation ?mk sampleIdle = Inl ''not connected''"
    using startLongOperation_fails_fast [of ?mk sampleIdle _ "''not connected''"]
    by (simp add: sample_defs)
  have c: "startLongOperation ?mk sampleUploading = Inl ''file transfer in progress''"
    using startLongOperation_fails_fast [of ?mk sampleUploading _ "''file transfer in progress''"]
    by (simp add: sample_defs sampleUploading_def isFileTransfer_def)
  have d: "startLongOperation ?mk sampleOtherBusy = Inl ''another operation in progress''"
    using startLongOperation_fails_fast
      [of ?mk sampleOtherBusy _ "''another operation in progress''"]
    by (simp add: sample_defs sampleOtherBusy_def isFileTransfer_def)
  have eq: "newFileDownload sampleEnv ''file'' = sampleOperation FileDownload"
    by (simp add: sampleEnv_def)
  have t: "trace sampleUploading = [] \<and> traceEnabled sampleUploading"
    by (simp add: sample_defs sampleUploading_def)
  have e: "download sampleEnv ''file'' sampleUploading
       = sampleUploading\<lparr>trace :=
           [Log (Answer (''**ERROR: file transfer in progress'' @ [newline]))]\<rparr>"
    using startLongOperation_fails_fast
      [of "\<lambda>u. newFileDownload sampleEnv ''file''" sampleUploading _ _ sampleEnv "''file''"] c t
    by (simp add: eq)
  from a b c d e show ?thesis by simp
qed

subsection \<open>The life of a long operation\<close>




subsection \<open>What the logging and timer primitives change\<close>









lemma pending_cleared: "pending (clearTimeout h c) h = None"
  by (auto simp add: pending_def clearTimeout_def map_of_eq_None_iff)



subsection \<open>Nothing is written while DISCONNECTING\<close>

lemma writes_append: "writes (t @ u) = writes t @ writes u"
  by (simp add: writes_def)





















subsection \<open>Cutting the buffer at the first terminator\<close>













subsection \<open>Chunks that arrive while no operation is active\<close>

lemma answers_append: "answers (t @ u) = answers t @ answers u"
  by (simp add: answers_def)
















subsection \<open>A line received while the identification is expected\<close>









subsection \<open>The identification timeout\<close>








































subsection \<open>The surplus of an operation the housekeeping finds done\<close>


end
